theory Spec2Isabelle
  imports Complex_Main "HOL-Library.Log_Nat"
begin

section \<open>The span-to-metric bridge of fastapi\_tracing\<close>

text \<open>
  The development embeds \<^verbatim>\<open>SpanToMetricProcessor\<close> and \<^verbatim>\<open>setup_otel\<close> of
  \<^verbatim>\<open>fastapi_tracing/ops.py\<close> and the allow-list loop of \<^verbatim>\<open>_setup_app\<close> in
  \<^verbatim>\<open>fastapi_tracing/app.py\<close>.

  Conventions of the embedding:
  \<^item> Python strings are \<open>string\<close>; Python's unbounded integers are \<open>int\<close>;
    \<^verbatim>\<open>Optional[int]\<close> is \<open>int option\<close>.
  \<^item> A Python float is the rational number it denotes (a finite double is a dyadic
    rational): true division \<^verbatim>\<open>a / b\<close> of two integers yields the double nearest to
    the exact quotient, ties to even, and raises \<^verbatim>\<open>OverflowError\<close> when that double
    would reach \<open>2 ^ 1024\<close>.
  \<^item> A raised exception is a value: every call returns \<open>error option\<close> next to the
    state it leaves behind.
  \<^item> The histogram instrument is a handle; what has been recorded through it is the
    list of \<^verbatim>\<open>record\<close> calls made so far, oldest first.
\<close>

subsection \<open>Data\<close>

datatype error = ZeroDivisionError | OverflowError

text \<open>
  \<^verbatim>\<open>opentelemetry.sdk.trace.Span\<close>, as far as \<^verbatim>\<open>on_end\<close> reads it: \<^verbatim>\<open>span.name\<close>,
  \<^verbatim>\<open>span._start_time\<close>, \<^verbatim>\<open>span._end_time\<close> (both \<^verbatim>\<open>Optional[int]\<close>, nanoseconds)
  and the mapping \<^verbatim>\<open>span.attributes\<close>. The type \<open>'v\<close> is the type of attribute values.
\<close>

record 'v Span =
  name :: string
  start_time :: "int option"
  end_time :: "int option"
  attributes :: "string \<rightharpoonup> 'v"

text \<open>
  The attribute keys \<^verbatim>\<open>SpanAttributes.HTTP_METHOD\<close>, \<^verbatim>\<open>HTTP_ROUTE\<close>,
  \<^verbatim>\<open>HTTP_STATUS_CODE\<close> and \<^verbatim>\<open>HTTP_FLAVOR\<close> come from the package
  \<^verbatim>\<open>opentelemetry.semconv.trace\<close>, which is not part of the repository: the bridge
  takes them as a parameter.
\<close>

record SpanAttributes =
  HTTP_METHOD :: string
  HTTP_ROUTE :: string
  HTTP_STATUS_CODE :: string
  HTTP_FLAVOR :: string

text \<open>The values the package gives the four keys; used for the concrete scenarios only.\<close>

definition semconv :: SpanAttributes where
  "semconv = \<lparr>HTTP_METHOD = ''http.method'', HTTP_ROUTE = ''http.route'',
     HTTP_STATUS_CODE = ''http.status_code'', HTTP_FLAVOR = ''http.flavor''\<rparr>"

text \<open>The handle returned by \<^verbatim>\<open>meter.create_histogram(name=, description=, unit=)\<close>.\<close>

record Histogram =
  instrument_name :: string
  description :: string
  instrument_unit :: string

definition create_histogram :: "string \<Rightarrow> string \<Rightarrow> string \<Rightarrow> Histogram" where
  "create_histogram n d u = \<lparr>instrument_name = n, description = d, instrument_unit = u\<rparr>"

text \<open>
  One call \<^verbatim>\<open>histogram.record(amount=, attributes=)\<close>. The attribute dictionary is an
  association list in insertion order; a value \<open>None\<close> is Python's \<^verbatim>\<open>None\<close>.
\<close>

record 'v Measurement =
  instrument :: Histogram
  amount :: rat
  metric_attributes :: "(string \<times> 'v option) list"

text \<open>
  Modelled from the spec: the metrics pipeline (an external collaborator) offers
  \<^verbatim>\<open>record(amount, attributes)\<close> on a histogram handle; the model appends the call to
  the list of calls made so far.
\<close>

definition record_measurement ::
  "Histogram \<Rightarrow> rat \<Rightarrow> (string \<times> 'v option) list \<Rightarrow> 'v Measurement list \<Rightarrow> 'v Measurement list"
where
  "record_measurement h amt attrs recorded =
     recorded @ [\<lparr>instrument = h, amount = amt, metric_attributes = attrs\<rparr>]"

text \<open>The two fields \<^verbatim>\<open>__init__\<close> assigns on \<^verbatim>\<open>self\<close>.\<close>

record SpanToMetricProcessor =
  span_names :: "string set"
  request_latency_histogram :: Histogram

subsection \<open>Python primitives used by the bridge\<close>

text \<open>
  \<^verbatim>\<open>not x\<close> for \<^verbatim>\<open>x: Optional[int]\<close>: true for \<^verbatim>\<open>None\<close> and for \<^verbatim>\<open>0\<close>.
\<close>

fun py_not :: "int option \<Rightarrow> bool" where
  "py_not None = True"
| "py_not (Some n) = (n = 0)"

text \<open>
  Rounding a rational to the nearest integer, a tie going to the even neighbour.
\<close>

definition round_half_even :: "rat \<Rightarrow> int" where
  "round_half_even x =
     (let f = \<lfloor>x\<rfloor>; r = x - of_int f in
      if r < 1 / 2 then f else if 1 / 2 < r then f + 1 else if even f then f else f + 1)"

text \<open>
  The binary exponent of a rational \<open>x \<noteq> 0\<close>: the integer \<open>k\<close> with
  \<open>2 ^ k \<le> \<bar>x\<bar> < 2 ^ (k + 1)\<close>, found from the bit lengths of numerator and
  denominator.
\<close>

definition binary_exponent :: "rat \<Rightarrow> int" where
  "binary_exponent x =
     (case quotient_of \<bar>x\<bar> of (p, q) \<Rightarrow>
        let k = bitlen p - bitlen q in if \<bar>x\<bar> < 2 powi k then k - 1 else k)"

text \<open>
  The IEEE 754 double nearest to a rational (round to nearest, ties to even), as a
  rational: 53 significant bits, so the last place of \<open>x\<close> is worth
  \<open>2 ^ (k - 52)\<close> for the binary exponent \<open>k\<close> of \<open>x\<close>, and never less than
  \<open>2 ^ (- 1074)\<close> (the subnormal numbers). The exponent is not bounded above here: the
  caller raises before the result would reach \<open>2 ^ 1024\<close>.
\<close>

definition nearest_double :: "rat \<Rightarrow> rat" where
  "nearest_double x =
     (if x = 0 then 0
      else let ulp = 2 powi (max (binary_exponent x) (- 1022) - 52)
           in of_int (round_half_even (x / ulp)) * ulp)"

text \<open>
  \<^verbatim>\<open>a / b\<close> on integers: \<^verbatim>\<open>ZeroDivisionError\<close> for a zero divisor; otherwise the
  double nearest to the exact quotient, and \<^verbatim>\<open>OverflowError\<close> when that double would
  reach \<open>2 ^ 1024\<close>, which is when the magnitude of the quotient is at least
  \<open>2 ^ 1024 - 2 ^ 970\<close>, half a unit in the last place above the largest double.
\<close>

definition float_overflow :: rat where
  "float_overflow = 2 ^ 1024 - 2 ^ 970"

definition truediv :: "int \<Rightarrow> int \<Rightarrow> error + rat" where
  "truediv a b =
     (if b = 0 then Inl ZeroDivisionError
      else if float_overflow \<le> \<bar>of_int a / of_int b\<bar> then Inl OverflowError
      else Inr (nearest_double (of_int a / of_int b)))"

subsection \<open>\<^verbatim>\<open>SpanToMetricProcessor\<close>\<close>

text \<open>
  \<^verbatim>\<open>
  def __init__(self, span_names: set[str]):
      super().__init__()
      self.span_names = set(span_names)
      self.request_latency_histogram = meter.create_histogram(
          name="http.server.request.latency",
          description="Measures the duration of inbound HTTP requests from spans.",
          unit="ms",
      )
  \<close>
\<close>

definition init :: "string set \<Rightarrow> SpanToMetricProcessor" where
  "init names =
     \<lparr>span_names = names,
      request_latency_histogram =
        create_histogram ''http.server.request.latency''
          ''Measures the duration of inbound HTTP requests from spans.'' ''ms''\<rparr>"

text \<open>
  \<^verbatim>\<open>
  def on_end(self, span: Span) -> None:
      if span.name not in self.span_names:
          return
      start_time_ns = span._start_time
      end_time_ns = span._end_time
      if not start_time_ns or not end_time_ns:
          return
      latency_ms = (end_time_ns - start_time_ns) / 1_000_000
      metric_attributes = {
          "http.method": span.attributes.get(SpanAttributes.HTTP_METHOD),
          "http.route": span.attributes.get(SpanAttributes.HTTP_ROUTE),
          "http.status_code": span.attributes.get(SpanAttributes.HTTP_STATUS_CODE),
          "http.flavor": span.attributes.get(SpanAttributes.HTTP_FLAVOR),
      }
      self.request_latency_histogram.record(
          amount=latency_ms,
          attributes=metric_attributes,
      )
  \<close>
  The call returns the exception it raised, if any, the processor and the list of
  \<^verbatim>\<open>record\<close> calls as it leaves them.
\<close>

definition on_end ::
  "SpanAttributes \<Rightarrow> SpanToMetricProcessor \<Rightarrow> 'v Span \<Rightarrow> 'v Measurement list
     \<Rightarrow> error option \<times> SpanToMetricProcessor \<times> 'v Measurement list"
where
  "on_end sa self sp recorded =
     (if name sp \<notin> span_names self then (None, self, recorded)
      else if py_not (start_time sp) \<or> py_not (end_time sp) then (None, self, recorded)
      else
        (case truediv (the (end_time sp) - the (start_time sp)) 1000000 of
           Inl e \<Rightarrow> (Some e, self, recorded)
         | Inr latency_ms \<Rightarrow>
             (None, self,
              record_measurement (request_latency_histogram self) latency_ms
                [(''http.method'', attributes sp (HTTP_METHOD sa)),
                 (''http.route'', attributes sp (HTTP_ROUTE sa)),
                 (''http.status_code'', attributes sp (HTTP_STATUS_CODE sa)),
                 (''http.flavor'', attributes sp (HTTP_FLAVOR sa))]
                recorded)))"

text \<open>The list of \<^verbatim>\<open>record\<close> calls in the state a call of \<^verbatim>\<open>on_end\<close> returns.\<close>

definition samples_of ::
  "error option \<times> SpanToMetricProcessor \<times> 'v Measurement list \<Rightarrow> 'v Measurement list" where
  "samples_of r = snd (snd r)"

subsection \<open>The allow-list loop of \<^verbatim>\<open>_setup_app\<close>\<close>

text \<open>
  A route as the loop reads it: \<^verbatim>\<open>route.path\<close> and \<^verbatim>\<open>route.methods\<close>. The methods
  are a Python set; the list gives the order in which the \<^verbatim>\<open>for\<close> loop meets them.
  The route objects come from the web framework, which is not part of the repository and
  stores the methods of a route in upper case.
\<close>

record Route =
  path :: string
  methods :: "string list"

text \<open>
  \<^verbatim>\<open>
  spans_to_emit_as_metrics = set()
  for route in app.routes:
      for method in route.methods:
          spans_to_emit_as_metrics.add(f"{method} {route.path}")
  \<close>
\<close>

fun add_methods :: "string \<Rightarrow> string list \<Rightarrow> string set \<Rightarrow> string set" where
  "add_methods p [] acc = acc"
| "add_methods p (method # ms) acc = add_methods p ms (insert (method @ '' '' @ p) acc)"

fun add_routes :: "Route list \<Rightarrow> string set \<Rightarrow> string set" where
  "add_routes [] acc = acc"
| "add_routes (route # rs) acc = add_routes rs (add_methods (path route) (methods route) acc)"

definition spans_to_emit_as_metrics :: "Route list \<Rightarrow> string set" where
  "spans_to_emit_as_metrics routes = add_routes routes {}"

subsection \<open>\<^verbatim>\<open>setup_otel\<close> and the tracing pipeline\<close>

text \<open>
  The span processors \<^verbatim>\<open>setup_otel\<close> registers with the tracer provider, in order:
  \<^verbatim>\<open>
  tracer_provider.add_span_processor(BatchSpanProcessor(OTLPSpanExporter()))
  if span_metrics_names:
      metric_processor = SpanToMetricProcessor(span_names=span_metrics_names)
      tracer_provider.add_span_processor(metric_processor)
  \<close>
  \<^verbatim>\<open>span_metrics_names\<close> is \<^verbatim>\<open>set[str] | None\<close>; it is true when it is a set with at
  least one member.
\<close>

datatype processor = BatchSpanProcessor | MetricProcessor SpanToMetricProcessor

fun py_truthy_set :: "string set option \<Rightarrow> bool" where
  "py_truthy_set None = False"
| "py_truthy_set (Some s) = (s \<noteq> {})"

definition setup_otel :: "string set option \<Rightarrow> processor list" where
  "setup_otel span_metrics_names =
     [BatchSpanProcessor] @
     (if py_truthy_set span_metrics_names
      then [MetricProcessor (init (the span_metrics_names))] else [])"

text \<open>\<^verbatim>\<open>_setup_app\<close>: build the allow-list, then \<^verbatim>\<open>setup_otel(app, spans_to_emit_as_metrics)\<close>.\<close>

definition setup_app :: "Route list \<Rightarrow> processor list" where
  "setup_app routes = setup_otel (Some (spans_to_emit_as_metrics routes))"

text \<open>
  Modelled from the spec: the tracing pipeline (an external collaborator) notifies every
  registered processor of an ended span, synchronously and in registration order; an
  exception raised by a processor ends the notification. The export processor records
  nothing in the histogram.
\<close>

fun processor_on_end ::
  "SpanAttributes \<Rightarrow> processor \<Rightarrow> 'v Span \<Rightarrow> 'v Measurement list
     \<Rightarrow> error option \<times> processor \<times> 'v Measurement list"
where
  "processor_on_end sa BatchSpanProcessor sp recorded = (None, BatchSpanProcessor, recorded)"
| "processor_on_end sa (MetricProcessor p) sp recorded =
     (case on_end sa p sp recorded of (e, p', recorded') \<Rightarrow> (e, MetricProcessor p', recorded'))"

fun span_ended ::
  "SpanAttributes \<Rightarrow> processor list \<Rightarrow> 'v Span \<Rightarrow> 'v Measurement list
     \<Rightarrow> error option \<times> processor list \<times> 'v Measurement list"
where
  "span_ended sa [] sp recorded = (None, [], recorded)"
| "span_ended sa (p # ps) sp recorded =
     (case processor_on_end sa p sp recorded of
        (Some e, p', recorded') \<Rightarrow> (Some e, p' # ps, recorded')
      | (None, p', recorded') \<Rightarrow>
          (case span_ended sa ps sp recorded' of
             (e, ps', recorded'') \<Rightarrow> (e, p' # ps', recorded'')))"

text \<open>A run of the service: the spans end one after the other; an exception that reaches
  the pipeline is kept with the state and the remaining spans are still delivered.\<close>

fun spans_ended ::
  "SpanAttributes \<Rightarrow> processor list \<Rightarrow> 'v Span list \<Rightarrow> 'v Measurement list
     \<Rightarrow> error list \<times> processor list \<times> 'v Measurement list"
where
  "spans_ended sa ps [] recorded = ([], ps, recorded)"
| "spans_ended sa ps (sp # sps) recorded =
     (case span_ended sa ps sp recorded of
        (e, ps', recorded') \<Rightarrow>
          (case spans_ended sa ps' sps recorded' of
             (es, ps'', recorded'') \<Rightarrow> ((case e of None \<Rightarrow> [] | Some x \<Rightarrow> [x]) @ es, ps'', recorded'')))"

subsection \<open>The registrar as the specification words it\<close>

text \<open>
  The specification composes \<^verbatim>\<open>"<METHOD> <path>"\<close> with the method uppercased. Upper
  case is taken on the ASCII letters, which is all an HTTP method token can hold.
\<close>

definition upper_char :: "char \<Rightarrow> char" where
  "upper_char c =
     (case map_of (zip ''abcdefghijklmnopqrstuvwxyz'' ''ABCDEFGHIJKLMNOPQRSTUVWXYZ'') c of
        None \<Rightarrow> c | Some u \<Rightarrow> u)"

definition upper :: "string \<Rightarrow> string" where
  "upper s = map upper_char s"

definition spec_allow_list :: "Route list \<Rightarrow> string set" where
  "spec_allow_list routes =
     (\<Union>route \<in> set routes. (\<lambda>method. upper method @ '' '' @ path route) ` set (methods route))"

section \<open>Properties\<close>

subsection \<open>Auxiliary facts\<close>

lemma add_methods_eq:
  "add_methods p ms acc = acc \<union> (\<lambda>method. method @ '' '' @ p) ` set ms"
  by (induction ms arbitrary: acc) auto

lemma add_routes_eq:
  "add_routes rs acc =
     acc \<union> (\<Union>route \<in> set rs. (\<lambda>method. method @ '' '' @ path route) ` set (methods route))"
  by (induction rs arbitrary: acc) (auto simp: add_methods_eq)

lemma spans_to_emit_as_metrics_eq:
  "spans_to_emit_as_metrics routes =
     (\<Union>route \<in> set routes. (\<lambda>method. method @ '' '' @ path route) ` set (methods route))"
  by (simp add: spans_to_emit_as_metrics_def add_routes_eq)

lemma truediv_in_range:
  "\<bar>of_int a / 1000000\<bar> < float_overflow \<Longrightarrow>
     truediv a 1000000 = Inr (nearest_double (of_int a / 1000000))"
  by (simp add: truediv_def)

text \<open>
  The rounding on values the scenarios use, and on a duration of one nanosecond, a
  millionth of a millisecond, which no double holds exactly.
\<close>

lemma nearest_double_exact_examples:
  "nearest_double (- 5) = - 5" "nearest_double 5 = 5" "nearest_double (5 / 2) = 5 / 2"
  by code_simp+

lemma nearest_double_nanosecond:
  "nearest_double (1 / 1000000) = 4722366482869645 / 2 ^ 72"
  by code_simp

text \<open>The binary exponent is the one that brackets the magnitude.\<close>

lemma bitlen_rat_bounds:
  assumes "0 < p"
  shows "(2::rat) powi (bitlen p - 1) \<le> of_int p" and "of_int p < (2::rat) powi bitlen p"
proof -
  from bitlen_bounds [OF assms]
  have lo: "2 ^ nat (bitlen p - 1) \<le> p" and hi: "p < 2 ^ nat (bitlen p)" by simp_all
  have b1: "1 \<le> bitlen p"
    using assms bitlen_eq_zero_iff [of p] bitlen_nonneg [of p] by linarith
  have "(2::rat) powi (bitlen p - 1) = of_int (2 ^ nat (bitlen p - 1))"
    using b1 by (simp add: power_int_def)
  also have "\<dots> \<le> of_int p" using lo by (simp only: of_int_le_iff)
  finally show "(2::rat) powi (bitlen p - 1) \<le> of_int p" .
  have "(of_int p :: rat) < of_int (2 ^ nat (bitlen p))" using hi by (simp only: of_int_less_iff)
  also have "\<dots> = (2::rat) powi bitlen p" using b1 by (simp add: power_int_def)
  finally show "of_int p < (2::rat) powi bitlen p" .
qed

lemma binary_exponent_bounds:
  assumes "x \<noteq> 0"
  shows "2 powi binary_exponent x \<le> \<bar>x\<bar> \<and> \<bar>x\<bar> < 2 powi (binary_exponent x + 1)"
proof -
  obtain p q where pq: "quotient_of \<bar>x\<bar> = (p, q)" by force
  have q: "0 < q" using quotient_of_denom_pos [OF pq] .
  have a: "\<bar>x\<bar> = of_int p / of_int q" using quotient_of_div [OF pq] .
  have "0 < \<bar>x\<bar>" using assms by simp
  then have p: "0 < p" using q unfolding a by (simp add: zero_less_divide_iff)
  define k where "k = bitlen p - bitlen q"
  have be: "binary_exponent x = (if \<bar>x\<bar> < 2 powi k then k - 1 else k)"
    by (simp add: binary_exponent_def pq k_def Let_def)
  have qpos: "(0::rat) < of_int q" using q by simp
  have lo: "2 powi (k - 1) \<le> \<bar>x\<bar>"
  proof -
    have "(2::rat) powi (k - 1) = 2 powi (bitlen p - 1) / 2 powi bitlen q"
      by (simp add: k_def power_int_diff [symmetric] algebra_simps)
    also have "\<dots> \<le> of_int p / 2 powi bitlen q"
      using bitlen_rat_bounds(1) [OF p] by (simp add: divide_right_mono)
    also have "\<dots> \<le> of_int p / of_int q"
      using bitlen_rat_bounds(2) [OF q] p qpos by (intro divide_left_mono) simp_all
    finally show ?thesis unfolding a .
  qed
  have hi: "\<bar>x\<bar> < 2 powi (k + 1)"
  proof -
    have "of_int p / of_int q < (2::rat) powi bitlen p / of_int q"
      using bitlen_rat_bounds(2) [OF p] qpos by (simp add: divide_strict_right_mono)
    also have "\<dots> \<le> 2 powi bitlen p / 2 powi (bitlen q - 1)"
      using bitlen_rat_bounds(1) [OF q] qpos by (intro divide_left_mono) simp_all
    also have "\<dots> = 2 powi (k + 1)"
      by (simp add: k_def power_int_diff [symmetric] algebra_simps)
    finally show ?thesis unfolding a .
  qed
  show ?thesis
  proof (cases "\<bar>x\<bar> < 2 powi k")
    case True
    with lo show ?thesis by (simp add: be)
  next
    case False
    with hi show ?thesis by (simp add: be)
  qed
qed

text \<open>Rounding is symmetric about zero.\<close>

lemma round_half_even_minus: "round_half_even (- y) = - round_half_even y"
proof (cases "y \<in> \<int>")
  case True
  then obtain n where "y = of_int n" by (auto elim: Ints_cases)
  then show ?thesis by (simp add: round_half_even_def flip: of_int_minus)
next
  case False
  then have ne: "y \<noteq> of_int \<lfloor>y\<rfloor>" by (metis Ints_of_int)
  then have fl: "\<lfloor>- y\<rfloor> = - \<lfloor>y\<rfloor> - 1"
    by (simp add: floor_minus ceiling_altdef)
  define f where "f = \<lfloor>y\<rfloor>"
  define r where "r = y - of_int f"
  have r: "0 < r" "r < 1"
    using ne unfolding r_def f_def by linarith+
  have y: "y = of_int f + r" by (simp add: r_def)
  have a: "round_half_even y =
      (if r < 1 / 2 then f else if 1 / 2 < r then f + 1 else if even f then f else f + 1)"
    unfolding round_half_even_def Let_def f_def r_def ..
  have b: "round_half_even (- y) =
      (if 1 - r < 1 / 2 then - f - 1 else if 1 / 2 < 1 - r then - f
       else if even (- f - 1) then - f - 1 else - f)"
    unfolding round_half_even_def Let_def fl f_def [symmetric] by (simp add: y)
  show ?thesis unfolding a b using r by auto
qed

lemma binary_exponent_minus: "binary_exponent (- x) = binary_exponent x"
  by (simp add: binary_exponent_def)

lemma nearest_double_minus: "nearest_double (- x) = - nearest_double x"
  by (simp add: nearest_double_def binary_exponent_minus round_half_even_minus Let_def)

text \<open>
  From a microsecond's worth of magnitude on (one nanosecond of duration), the rounded
  value keeps the sign of the exact one.
\<close>

lemma round_half_even_ge: "of_int n \<le> y \<Longrightarrow> n \<le> round_half_even y"
proof -
  assume "of_int n \<le> y"
  then have "n \<le> \<lfloor>y\<rfloor>" by (simp add: le_floor_iff)
  then show ?thesis by (simp add: round_half_even_def Let_def)
qed

lemma nearest_double_pos:
  assumes "1 / 1000000 \<le> x"
  shows "0 < nearest_double x"
proof -
  have x: "0 < x" "x \<noteq> 0" "\<bar>x\<bar> = x" using assms by simp_all
  define k where "k = binary_exponent x"
  from binary_exponent_bounds [OF x(2)]
  have lo: "2 powi k \<le> x" and hi: "x < 2 powi (k + 1)" by (simp_all add: x(3) k_def)
  have k: "- 1022 \<le> k"
  proof (rule ccontr)
    assume "\<not> - 1022 \<le> k"
    then have "k + 1 \<le> - 1022" by simp
    then have "(2::rat) powi (k + 1) \<le> 2 powi (- 1022)" by (intro power_int_increasing) simp_all
    also have "\<dots> < 1 / 1000000" by (simp add: power_int_minus_divide)
    finally show False using hi assms by simp
  qed
  define ulp :: rat where "ulp = 2 powi (k - 52)"
  have pos: "0 < ulp" by (simp add: ulp_def)
  have nd: "nearest_double x = of_int (round_half_even (x / ulp)) * ulp"
    using x(2) k by (simp add: nearest_double_def k_def [symmetric] ulp_def max_absorb1 Let_def)
  have "(2::rat) powi k = 2 powi 52 * ulp"
    by (simp add: ulp_def power_int_diff)
  then have "2 powi 52 \<le> x / ulp" using lo pos by (simp add: pos_le_divide_eq)
  then have "of_int 1 \<le> x / ulp" by simp
  then have "1 \<le> round_half_even (x / ulp)" by (rule round_half_even_ge)
  then have "(0::rat) < of_int (round_half_even (x / ulp))" by simp
  then show ?thesis unfolding nd using pos by simp
qed

lemma nearest_double_negative:
  assumes "a < 0"
  shows "nearest_double (of_int a / 1000000) < 0"
proof -
  have "a \<le> - 1" using assms by simp
  then have "(of_int a :: rat) \<le> of_int (- 1)" by (simp only: of_int_le_iff)
  then have "1 / 1000000 \<le> - (of_int a / 1000000 :: rat)" by simp
  from nearest_double_pos [OF this] show ?thesis by (simp add: nearest_double_minus)
qed

text \<open>The rounded value is within half a unit in the last place of the exact one.\<close>

lemma round_half_even_error: "\<bar>of_int (round_half_even y) - y\<bar> \<le> 1 / 2"
proof -
  define f where "f = \<lfloor>y\<rfloor>"
  define r where "r = y - of_int f"
  have r: "0 \<le> r" "r < 1" unfolding r_def f_def by linarith+
  have y: "y = of_int f + r" by (simp add: r_def)
  have "round_half_even y =
      (if r < 1 / 2 then f else if 1 / 2 < r then f + 1 else if even f then f else f + 1)"
    unfolding round_half_even_def Let_def f_def r_def ..
  then show ?thesis using r unfolding y by (auto simp: abs_if)
qed

lemma nearest_double_error:
  "\<bar>nearest_double x - x\<bar> \<le> 2 powi (max (binary_exponent x) (- 1022) - 52) / 2"
proof (cases "x = 0")
  case True
  then show ?thesis by (simp add: nearest_double_def)
next
  case False
  define ulp :: rat where "ulp = 2 powi (max (binary_exponent x) (- 1022) - 52)"
  have pos: "0 < ulp" by (simp add: ulp_def)
  have "nearest_double x - x = (of_int (round_half_even (x / ulp)) - x / ulp) * ulp"
    using False pos by (simp add: nearest_double_def ulp_def [symmetric] Let_def field_simps)
  then have "\<bar>nearest_double x - x\<bar> = \<bar>of_int (round_half_even (x / ulp)) - x / ulp\<bar> * ulp"
    using pos by (simp add: abs_mult)
  also have "\<dots> \<le> (1 / 2) * ulp"
    using round_half_even_error [of "x / ulp"] pos by (intro mult_right_mono) simp_all
  finally show ?thesis by (simp add: ulp_def)
qed

text \<open>
  The test of \<open>truediv\<close> on the exact quotient is the test on the rounded value: the
  division raises \<^verbatim>\<open>OverflowError\<close> exactly when the nearest double would reach
  \<open>2 ^ 1024\<close>.
\<close>

lemma nearest_double_nonneg:
  assumes "0 \<le> x"
  shows "0 \<le> nearest_double x"
proof (cases "x = 0")
  case True
  then show ?thesis by (simp add: nearest_double_def)
next
  case False
  define ulp :: rat where "ulp = 2 powi (max (binary_exponent x) (- 1022) - 52)"
  have pos: "0 < ulp" by (simp add: ulp_def)
  have nd: "nearest_double x = of_int (round_half_even (x / ulp)) * ulp"
    using False by (simp add: nearest_double_def ulp_def Let_def)
  have "of_int 0 \<le> x / ulp" using assms pos by simp
  then have "0 \<le> round_half_even (x / ulp)" by (rule round_half_even_ge)
  then show ?thesis unfolding nd using pos by simp
qed

lemma nearest_double_abs: "\<bar>nearest_double x\<bar> = nearest_double \<bar>x\<bar>"
proof (cases "0 \<le> x")
  case True
  with nearest_double_nonneg [of x] show ?thesis by simp
next
  case False
  with nearest_double_nonneg [of "- x"] show ?thesis by (simp add: nearest_double_minus)
qed

lemma nearest_double_finite:
  assumes "\<bar>x\<bar> < float_overflow"
  shows "\<bar>nearest_double x\<bar> < 2 ^ 1024"
proof (cases "x = 0")
  case True
  then show ?thesis by (simp add: nearest_double_def)
next
  case False
  define k where "k = binary_exponent x"
  from binary_exponent_bounds [OF False] have lo: "2 powi k \<le> \<bar>x\<bar>" by (simp add: k_def)
  have "\<bar>x\<bar> < 2 powi 1024" using assms by (simp add: float_overflow_def)
  with lo have lt: "(2::rat) powi k < 2 powi 1024" by simp
  have "k < 1024"
  proof (rule ccontr)
    assume "\<not> k < 1024"
    then have "(2::rat) powi 1024 \<le> 2 powi k" by (intro power_int_increasing) simp_all
    with lt show False by simp
  qed
  then have "max k (- 1022) - 52 \<le> 971" by simp
  then have "(2::rat) powi (max k (- 1022) - 52) \<le> 2 powi 971"
    by (intro power_int_increasing) simp_all
  then have ulp: "(2::rat) powi (max k (- 1022) - 52) / 2 \<le> 2 ^ 970" by simp
  have "\<bar>nearest_double x\<bar> \<le> \<bar>x\<bar> + \<bar>nearest_double x - x\<bar>" by simp
  also have "\<dots> \<le> \<bar>x\<bar> + 2 ^ 970"
    using nearest_double_error [of x] ulp by (simp add: k_def)
  also have "\<dots> < 2 ^ 1024" using assms by (simp add: float_overflow_def)
  finally show ?thesis .
qed

lemma round_half_even_tie:
  assumes "even n" and "of_int n - 1 / 2 \<le> y"
  shows "n \<le> round_half_even y"
proof (cases "of_int n \<le> y")
  case True
  then show ?thesis by (rule round_half_even_ge)
next
  case False
  then have fl: "\<lfloor>y\<rfloor> = n - 1" using assms(2) by (simp add: floor_unique)
  have "odd (n - 1)" using assms(1) by simp
  then show ?thesis
    using assms(2) by (simp add: round_half_even_def Let_def fl)
qed

lemma nearest_double_overflows:
  assumes "float_overflow \<le> \<bar>x\<bar>"
  shows "2 ^ 1024 \<le> \<bar>nearest_double x\<bar>"
proof -
  define a where "a = \<bar>x\<bar>"
  have a: "float_overflow \<le> a" "0 < a" "a \<noteq> 0" "\<bar>a\<bar> = a"
    using assms by (simp_all add: a_def float_overflow_def)
  define k where "k = binary_exponent a"
  from binary_exponent_bounds [OF a(3)]
  have lo: "2 powi k \<le> a" and hi: "a < 2 powi (k + 1)" by (simp_all add: a(4) k_def)
  have "(2::rat) powi 1023 \<le> a" using a(1) by (simp add: float_overflow_def)
  with hi have lt: "(2::rat) powi 1023 < 2 powi (k + 1)" by simp
  have k: "1023 \<le> k"
  proof (rule ccontr)
    assume "\<not> 1023 \<le> k"
    then have "(2::rat) powi (k + 1) \<le> 2 powi 1023" by (intro power_int_increasing) simp_all
    with lt show False by simp
  qed
  define ulp :: rat where "ulp = 2 powi (k - 52)"
  have pos: "0 < ulp" by (simp add: ulp_def)
  have nd: "nearest_double a = of_int (round_half_even (a / ulp)) * ulp"
    using a(3) k by (simp add: nearest_double_def k_def [symmetric] ulp_def max_absorb1 Let_def)
  have "2 ^ 1024 \<le> nearest_double a"
  proof (cases "k = 1023")
    case True
    then have u: "ulp = 2 ^ 971" by (simp add: ulp_def)
    have "of_int (2 ^ 53) - 1 / 2 \<le> a / ulp"
      using a(1) by (simp add: u float_overflow_def field_simps)
    then have "2 ^ 53 \<le> round_half_even (a / ulp)"
      by (intro round_half_even_tie) simp_all
    then have "(of_int (2 ^ 53) :: rat) \<le> of_int (round_half_even (a / ulp))"
      by (simp only: of_int_le_iff)
    then have "of_int (2 ^ 53) * ulp \<le> of_int (round_half_even (a / ulp)) * ulp"
      using pos by (intro mult_right_mono) simp_all
    then show ?thesis unfolding nd by (simp add: u)
  next
    case False
    with k have k': "1024 \<le> k" by simp
    have "(2::rat) powi k = 2 powi 52 * ulp" by (simp add: ulp_def power_int_diff)
    then have "of_int (2 ^ 52) \<le> a / ulp" using lo pos by (simp add: pos_le_divide_eq)
    then have "2 ^ 52 \<le> round_half_even (a / ulp)" by (rule round_half_even_ge)
    then have "(of_int (2 ^ 52) :: rat) \<le> of_int (round_half_even (a / ulp))"
      by (simp only: of_int_le_iff)
    then have "of_int (2 ^ 52) * ulp \<le> nearest_double a"
      unfolding nd using pos by (intro mult_right_mono) simp_all
    moreover have "of_int (2 ^ 52) * ulp = (2::rat) powi k" by (simp add: ulp_def power_int_diff)
    moreover have "(2::rat) powi 1024 \<le> 2 powi k" using k' by (intro power_int_increasing) simp_all
    ultimately show ?thesis by simp
  qed
  then show ?thesis by (simp add: nearest_double_abs a_def)
qed

lemma truediv_overflow_iff:
  "b \<noteq> 0 \<Longrightarrow>
     (truediv a b = Inl OverflowError) = (2 ^ 1024 \<le> \<bar>nearest_double (of_int a / of_int b)\<bar>)"
  using nearest_double_finite [of "of_int a / of_int b"]
    nearest_double_overflows [of "of_int a / of_int b"]
  by (auto simp: truediv_def)

text \<open>
  The division is the one place where \<^verbatim>\<open>on_end\<close> can raise: a span in the allow-list
  whose timestamps are \<open>2 ^ 1050\<close> nanoseconds apart makes \<^verbatim>\<open>/ 1_000_000\<close> raise
  \<^verbatim>\<open>OverflowError\<close>, and nothing is recorded.
\<close>

lemma on_end_overflow_example:
  "on_end semconv (init {''GET /ping''})
     \<lparr>name = ''GET /ping'', start_time = Some 1, end_time = Some (2 ^ 1050),
      attributes = (Map.empty :: string \<rightharpoonup> string)\<rparr> [] =
   (Some OverflowError, init {''GET /ping''}, [])"
  by (simp add: on_end_def init_def truediv_def float_overflow_def)

lemma span_ended_export_only:
  "span_ended sa [BatchSpanProcessor] sp recorded = (None, [BatchSpanProcessor], recorded)"
  by simp

lemma spans_ended_export_only:
  "spans_ended sa [BatchSpanProcessor] sps recorded = ([], [BatchSpanProcessor], recorded)"
  by (induction sps arbitrary: recorded) simp_all

subsection \<open>C1: latency of a matched span\<close>

text \<open>
  C1 as stated fails. A span whose name is in the allow-list and whose \<^verbatim>\<open>_start_time\<close>
  is present with the value \<open>0\<close> (and \<^verbatim>\<open>_end_time\<close> present, 3,000,000 ns) does not
  yield one sample: \<^verbatim>\<open>not start_time_ns\<close> is true for \<open>0\<close> and \<^verbatim>\<open>on_end\<close> returns
  before the division.
\<close>

theorem on_end_zero_start_counterexample:
  "\<not> (length (samples_of (on_end semconv (init {''POST /hash''})
          \<lparr>name = ''POST /hash'', start_time = Some 0, end_time = Some 3000000,
           attributes = (Map.empty :: string \<rightharpoonup> string)\<rparr> [])) = 1)"
  by (simp add: on_end_def init_def samples_of_def)

text \<open>
  C1, amended: for every span whose name is in the allow-list and whose start time \<open>s\<close>
  and end time \<open>e\<close> are both present and both different from \<open>0\<close>, with the quotient
  \<open>(e - s) / 1000000\<close> inside the range of a float, \<^verbatim>\<open>on_end\<close> raises nothing and
  records exactly one sample, on the processor's histogram, whose amount is the float
  \<^verbatim>\<open>(end_time_ns - start_time_ns) / 1_000_000\<close>: the double nearest to the quotient
  \<open>(e - s) / 1000000\<close>. Nothing clamps the amount: it is negative when \<open>e < s\<close>.
\<close>

theorem on_end_records_latency:
  assumes "name sp \<in> span_names self"
    and "start_time sp = Some s" and "end_time sp = Some e"
    and "s \<noteq> 0" and "e \<noteq> 0"
    and "\<bar>of_int (e - s) / 1000000\<bar> < float_overflow"
  shows "(\<exists>attrs. on_end sa self sp recorded =
           (None, self,
            recorded @ [\<lparr>instrument = request_latency_histogram self,
                          amount = nearest_double (of_int (e - s) / 1000000),
                          metric_attributes = attrs\<rparr>])) \<and>
         (e < s \<longrightarrow> nearest_double (of_int (e - s) / 1000000) < 0)"
proof (intro conjI impI)
  show "\<exists>attrs. on_end sa self sp recorded =
           (None, self,
            recorded @ [\<lparr>instrument = request_latency_histogram self,
                          amount = nearest_double (of_int (e - s) / 1000000),
                          metric_attributes = attrs\<rparr>])"
    using assms by (simp add: on_end_def truediv_in_range record_measurement_def)
next
  assume "e < s"
  then have "e - s < 0" by simp
  then show "nearest_double (of_int (e - s) / 1000000) < 0"
    by (rule nearest_double_negative)
qed

text \<open>
  Scenario D: start 10,000,000 ns, end 5,000,000 ns, name \<^verbatim>\<open>GET /ping\<close>: one sample
  with amount \<open>-5\<close>.
\<close>

theorem on_end_records_latency_witness:
  "\<exists>attrs. on_end semconv (init {''GET /ping''})
       \<lparr>name = ''GET /ping'', start_time = Some 10000000, end_time = Some 5000000,
        attributes = (Map.empty :: string \<rightharpoonup> string)\<rparr> [] =
     (None, init {''GET /ping''},
      [\<lparr>instrument = request_latency_histogram (init {''GET /ping''}), amount = - 5,
        metric_attributes = attrs\<rparr>])"
  using on_end_records_latency [where sp =
      "\<lparr>name = ''GET /ping'', start_time = Some 10000000, end_time = Some 5000000,
        attributes = (Map.empty :: string \<rightharpoonup> string)\<rparr>"
      and self = "init {''GET /ping''}" and s = 10000000 and e = 5000000
      and sa = semconv and recorded = "[]"]
  by (simp add: init_def float_overflow_def nearest_double_exact_examples)

subsection \<open>C2: a name outside the allow-list\<close>

text \<open>
  C2: for every span whose name equals no member of the allow-list, \<^verbatim>\<open>on_end\<close> records
  no sample and has no other effect: it raises nothing and returns the processor and the
  recorded samples as they were. Membership is equality of strings.
\<close>

theorem on_end_unlisted_name:
  assumes "\<forall>n \<in> span_names self. n \<noteq> name sp"
  shows "on_end sa self sp recorded = (None, self, recorded)"
proof -
  from assms have "name sp \<notin> span_names self" by blast
  then show ?thesis by (simp add: on_end_def)
qed

text \<open>Scenario B: allow-list \<^verbatim>\<open>{"GET /ping"}\<close>, a valid span named \<^verbatim>\<open>GET /other\<close>.\<close>

theorem on_end_unlisted_name_witness:
  "''GET /other'' \<notin> span_names (init {''GET /ping''}) \<and>
   on_end semconv (init {''GET /ping''})
     \<lparr>name = ''GET /other'', start_time = Some 1000000, end_time = Some 6000000,
      attributes = [''http.method'' \<mapsto> ''GET'']\<rparr> [] =
   (None, init {''GET /ping''}, [])"
  using on_end_unlisted_name [where self = "init {''GET /ping''}" and sp =
     "\<lparr>name = ''GET /other'', start_time = Some 1000000, end_time = Some 6000000,
      attributes = [''http.method'' \<mapsto> ''GET'']\<rparr>" and sa = semconv and recorded = "[]"]
  by (simp add: init_def)

subsection \<open>C3: a missing timestamp\<close>

text \<open>
  C3: for every span whose start time or end time is absent, whether or not its name is
  in the allow-list, \<^verbatim>\<open>on_end\<close> records no sample and raises nothing.
\<close>

theorem on_end_missing_timestamp:
  assumes "start_time sp = None \<or> end_time sp = None"
  shows "on_end sa self sp recorded = (None, self, recorded)"
  using assms by (auto simp: on_end_def)

text \<open>Scenario C: name \<^verbatim>\<open>GET /ping\<close>, start 0, end \<^verbatim>\<open>None\<close>.\<close>

theorem on_end_missing_timestamp_witness:
  "(start_time \<lparr>name = ''GET /ping'', start_time = Some 0, end_time = None,
      attributes = (Map.empty :: string \<rightharpoonup> string)\<rparr> = None \<or>
    end_time \<lparr>name = ''GET /ping'', start_time = Some 0, end_time = None,
      attributes = (Map.empty :: string \<rightharpoonup> string)\<rparr> = None) \<and>
   on_end semconv (init {''GET /ping''})
     \<lparr>name = ''GET /ping'', start_time = Some 0, end_time = None,
      attributes = (Map.empty :: string \<rightharpoonup> string)\<rparr> [] =
   (None, init {''GET /ping''}, [])"
  using on_end_missing_timestamp [where sp =
     "\<lparr>name = ''GET /ping'', start_time = Some 0, end_time = None,
      attributes = (Map.empty :: string \<rightharpoonup> string)\<rparr>"
     and sa = semconv and self = "init {''GET /ping''}" and recorded = "[]"]
  by simp

subsection \<open>C4: scenario A\<close>

text \<open>
  C4 as stated fails. With allow-list \<^verbatim>\<open>{"GET /ping"}\<close>, the span named
  \<^verbatim>\<open>GET /ping\<close> with start 0 ns and end 5,000,000 ns does not yield one sample: the
  start time \<open>0\<close> fails the check \<^verbatim>\<open>not start_time_ns\<close>.
\<close>

theorem scenario_A_counterexample:
  "\<not> (length (samples_of (on_end semconv (init {''GET /ping''})
          \<lparr>name = ''GET /ping'', start_time = Some 0, end_time = Some 5000000,
           attributes = (Map.empty :: string \<rightharpoonup> string)\<rparr> [])) = 1)"
  by (simp add: on_end_def init_def samples_of_def)

text \<open>
  C4, amended: with allow-list \<^verbatim>\<open>{"GET /ping"}\<close>, \<^verbatim>\<open>on_end\<close> on the span named
  \<^verbatim>\<open>GET /ping\<close> with start 0 ns and end 5,000,000 ns records no sample and raises
  nothing; on the same span moved to start 1,000,000 ns and end 6,000,000 ns it records
  exactly one sample with amount 5 (milliseconds).
\<close>

theorem scenario_A_amended:
  "on_end semconv (init {''GET /ping''})
     \<lparr>name = ''GET /ping'', start_time = Some 0, end_time = Some 5000000,
      attributes = (Map.empty :: string \<rightharpoonup> string)\<rparr> [] =
   (None, init {''GET /ping''}, []) \<and>
   on_end semconv (init {''GET /ping''})
     \<lparr>name = ''GET /ping'', start_time = Some 1000000, end_time = Some 6000000,
      attributes = (Map.empty :: string \<rightharpoonup> string)\<rparr> [] =
   (None, init {''GET /ping''},
    [\<lparr>instrument = request_latency_histogram (init {''GET /ping''}), amount = 5,
      metric_attributes = [(''http.method'', None), (''http.route'', None),
        (''http.status_code'', None), (''http.flavor'', None)]\<rparr>])"
  by (simp add: on_end_def init_def truediv_def float_overflow_def record_measurement_def
      nearest_double_exact_examples)

subsection \<open>C5: the allow-list of a route table\<close>

text \<open>
  C5: for every route table whose methods are in upper case, as the route objects of
  the framework hold them, the allow-list is exactly the set of strings
  \<^verbatim>\<open>"<METHOD> <path>"\<close> over every pair of a route and one of its methods, with the
  method uppercased and the path verbatim. The loop composes the method, a space and the
  path as the route holds them (first conjunct), which on such a table is the set the
  specification words (second conjunct); and the route table
  \<^verbatim>\<open>[("/hash", {POST}), ("/slow/and/unstable", {GET})]\<close> yields exactly
  \<^verbatim>\<open>{"POST /hash", "GET /slow/and/unstable"}\<close> (third conjunct).
\<close>

theorem registrar_allow_list:
  "spans_to_emit_as_metrics routes =
     (\<Union>route \<in> set routes. (\<lambda>method. method @ '' '' @ path route) ` set (methods route)) \<and>
   ((\<forall>route \<in> set routes. \<forall>method \<in> set (methods route). upper method = method) \<longrightarrow>
      spans_to_emit_as_metrics routes = spec_allow_list routes) \<and>
   spans_to_emit_as_metrics
     [\<lparr>path = ''/hash'', methods = [''POST'']\<rparr>,
      \<lparr>path = ''/slow/and/unstable'', methods = [''GET'']\<rparr>] =
     {''POST /hash'', ''GET /slow/and/unstable''}"
proof (intro conjI impI)
  show "spans_to_emit_as_metrics routes =
     (\<Union>route \<in> set routes. (\<lambda>method. method @ '' '' @ path route) ` set (methods route))"
    by (rule spans_to_emit_as_metrics_eq)
next
  assume "\<forall>route \<in> set routes. \<forall>method \<in> set (methods route). upper method = method"
  then show "spans_to_emit_as_metrics routes = spec_allow_list routes"
    by (simp add: spans_to_emit_as_metrics_eq spec_allow_list_def)
next
  show "spans_to_emit_as_metrics
     [\<lparr>path = ''/hash'', methods = [''POST'']\<rparr>,
      \<lparr>path = ''/slow/and/unstable'', methods = [''GET'']\<rparr>] =
     {''POST /hash'', ''GET /slow/and/unstable''}"
    by (simp add: spans_to_emit_as_metrics_def insert_commute)
qed

text \<open>
  The two routes of the example satisfy the hypothesis, and the set the specification
  words for them is the one the claim names.
\<close>

theorem registrar_allow_list_witness:
  "upper ''POST'' = ''POST'' \<and> upper ''GET'' = ''GET'' \<and>
   spans_to_emit_as_metrics [\<lparr>path = ''/hash'', methods = [''POST'']\<rparr>,
                    \<lparr>path = ''/slow/and/unstable'', methods = [''GET'']\<rparr>] =
   spec_allow_list [\<lparr>path = ''/hash'', methods = [''POST'']\<rparr>,
                    \<lparr>path = ''/slow/and/unstable'', methods = [''GET'']\<rparr>] \<and>
   spec_allow_list [\<lparr>path = ''/hash'', methods = [''POST'']\<rparr>,
                    \<lparr>path = ''/slow/and/unstable'', methods = [''GET'']\<rparr>] =
     {''POST /hash'', ''GET /slow/and/unstable''}"
proof -
  have u: "upper ''POST'' = ''POST''" "upper ''GET'' = ''GET''"
    by (simp_all add: upper_def upper_char_def)
  then have h: "\<forall>route \<in> set [\<lparr>path = ''/hash'', methods = [''POST'']\<rparr>,
                     \<lparr>path = ''/slow/and/unstable'', methods = [''GET'']\<rparr>].
      \<forall>method \<in> set (methods route). upper method = method"
    by simp
  with registrar_allow_list [of "[\<lparr>path = ''/hash'', methods = [''POST'']\<rparr>,
                     \<lparr>path = ''/slow/and/unstable'', methods = [''GET'']\<rparr>]"]
  have eq: "spans_to_emit_as_metrics [\<lparr>path = ''/hash'', methods = [''POST'']\<rparr>,
                    \<lparr>path = ''/slow/and/unstable'', methods = [''GET'']\<rparr>] =
   spec_allow_list [\<lparr>path = ''/hash'', methods = [''POST'']\<rparr>,
                    \<lparr>path = ''/slow/and/unstable'', methods = [''GET'']\<rparr>]"
    by blast
  have "spec_allow_list [\<lparr>path = ''/hash'', methods = [''POST'']\<rparr>,
                    \<lparr>path = ''/slow/and/unstable'', methods = [''GET'']\<rparr>] =
     {''POST /hash'', ''GET /slow/and/unstable''}"
    by (simp add: spec_allow_list_def u insert_commute)
  with u eq show ?thesis by blast
qed

subsection \<open>C6: the four dimensions\<close>

text \<open>
  C6 as stated fails. A span in the allow-list with both timestamps present (start 0 ns,
  end 5,000,000 ns) and only the HTTP-method attribute set does not yield one sample:
  the start time \<open>0\<close> fails the check \<^verbatim>\<open>not start_time_ns\<close>, and \<^verbatim>\<open>on_end\<close>
  returns before it builds the attribute set.
\<close>

theorem on_end_dimensions_counterexample:
  "\<not> (length (samples_of (on_end semconv (init {''GET /ping''})
          \<lparr>name = ''GET /ping'', start_time = Some 0, end_time = Some 5000000,
           attributes = [''http.method'' \<mapsto> ''GET'']\<rparr> [])) = 1)"
  by (simp add: on_end_def init_def samples_of_def)

text \<open>
  C6, amended: for every span in the allow-list whose timestamps are both present and
  both different from \<open>0\<close>, with the duration inside the range of a float, \<^verbatim>\<open>on_end\<close>
  raises nothing and records one sample whose attribute set has exactly the four keys
  \<^verbatim>\<open>http.method\<close>, \<^verbatim>\<open>http.route\<close>, \<^verbatim>\<open>http.status_code\<close>, \<^verbatim>\<open>http.flavor\<close>, each
  holding what the span's attribute mapping holds under its own key: the value when the
  key is present, \<^verbatim>\<open>None\<close> when it is missing, whatever the other three keys do. In
  particular such a span with only the HTTP-method attribute set yields that dimension
  and three \<^verbatim>\<open>None\<close>.
\<close>

theorem on_end_dimensions:
  assumes "name sp \<in> span_names self"
    and "start_time sp = Some s" and "end_time sp = Some e"
    and "s \<noteq> 0" and "e \<noteq> 0"
    and "\<bar>of_int (e - s) / 1000000\<bar> < float_overflow"
  shows "(\<exists>amt. on_end sa self sp recorded =
           (None, self,
            recorded @ [\<lparr>instrument = request_latency_histogram self, amount = amt,
                          metric_attributes =
                            [(''http.method'', attributes sp (HTTP_METHOD sa)),
                             (''http.route'', attributes sp (HTTP_ROUTE sa)),
                             (''http.status_code'', attributes sp (HTTP_STATUS_CODE sa)),
                             (''http.flavor'', attributes sp (HTTP_FLAVOR sa))]\<rparr>])) \<and>
         (attributes sp = [HTTP_METHOD sa \<mapsto> v] \<and>
          HTTP_ROUTE sa \<noteq> HTTP_METHOD sa \<and> HTTP_STATUS_CODE sa \<noteq> HTTP_METHOD sa \<and>
          HTTP_FLAVOR sa \<noteq> HTTP_METHOD sa \<longrightarrow>
          (\<exists>amt. on_end sa self sp recorded =
           (None, self,
            recorded @ [\<lparr>instrument = request_latency_histogram self, amount = amt,
                          metric_attributes =
                            [(''http.method'', Some v), (''http.route'', None),
                             (''http.status_code'', None), (''http.flavor'', None)]\<rparr>])))"
proof -
  have eq: "on_end sa self sp recorded =
      (None, self,
       recorded @ [\<lparr>instrument = request_latency_histogram self,
                     amount = nearest_double (of_int (e - s) / 1000000),
                     metric_attributes =
                       [(''http.method'', attributes sp (HTTP_METHOD sa)),
                        (''http.route'', attributes sp (HTTP_ROUTE sa)),
                        (''http.status_code'', attributes sp (HTTP_STATUS_CODE sa)),
                        (''http.flavor'', attributes sp (HTTP_FLAVOR sa))]\<rparr>])"
    using assms by (simp add: on_end_def truediv_in_range record_measurement_def)
  show ?thesis
  proof (intro conjI impI)
    show "\<exists>amt. on_end sa self sp recorded =
           (None, self,
            recorded @ [\<lparr>instrument = request_latency_histogram self, amount = amt,
                          metric_attributes =
                            [(''http.method'', attributes sp (HTTP_METHOD sa)),
                             (''http.route'', attributes sp (HTTP_ROUTE sa)),
                             (''http.status_code'', attributes sp (HTTP_STATUS_CODE sa)),
                             (''http.flavor'', attributes sp (HTTP_FLAVOR sa))]\<rparr>])"
      using eq by blast
  next
    assume only: "attributes sp = [HTTP_METHOD sa \<mapsto> v] \<and>
          HTTP_ROUTE sa \<noteq> HTTP_METHOD sa \<and> HTTP_STATUS_CODE sa \<noteq> HTTP_METHOD sa \<and>
          HTTP_FLAVOR sa \<noteq> HTTP_METHOD sa"
    then have "attributes sp (HTTP_METHOD sa) = Some v" "attributes sp (HTTP_ROUTE sa) = None"
      "attributes sp (HTTP_STATUS_CODE sa) = None" "attributes sp (HTTP_FLAVOR sa) = None"
      by simp_all
    with eq show "\<exists>amt. on_end sa self sp recorded =
           (None, self,
            recorded @ [\<lparr>instrument = request_latency_histogram self, amount = amt,
                          metric_attributes =
                            [(''http.method'', Some v), (''http.route'', None),
                             (''http.status_code'', None), (''http.flavor'', None)]\<rparr>])"
      by simp
  qed
qed

text \<open>
  A span named \<^verbatim>\<open>GET /ping\<close>, 2,500,000 ns long, with only \<^verbatim>\<open>http.method\<close> set.
\<close>

theorem on_end_dimensions_witness:
  "\<exists>amt. on_end semconv (init {''GET /ping''})
     \<lparr>name = ''GET /ping'', start_time = Some 1000000, end_time = Some 3500000,
      attributes = [''http.method'' \<mapsto> ''GET'']\<rparr> [] =
   (None, init {''GET /ping''},
    [\<lparr>instrument = request_latency_histogram (init {''GET /ping''}), amount = amt,
      metric_attributes = [(''http.method'', Some ''GET''), (''http.route'', None),
        (''http.status_code'', None), (''http.flavor'', None)]\<rparr>])"
  using on_end_dimensions [where sp =
     "\<lparr>name = ''GET /ping'', start_time = Some 1000000, end_time = Some 3500000,
      attributes = [''http.method'' \<mapsto> ''GET'']\<rparr>" and self = "init {''GET /ping''}"
     and s = 1000000 and e = 3500000 and sa = semconv and v = "''GET''" and recorded = "[]"]
  by (simp add: init_def float_overflow_def semconv_def)

subsection \<open>C7: the empty route table\<close>

text \<open>
  C7: for the empty route table the allow-list is empty; \<^verbatim>\<open>_setup_app\<close> completes and
  registers the export processor alone, so that whatever spans end afterwards, no
  exception reaches the pipeline, the processors stay as they are and no sample is
  recorded; and a bridge built on that allow-list records nothing on any span either.
\<close>

theorem empty_route_table_no_op:
  "spans_to_emit_as_metrics [] = {} \<and>
   setup_app [] = [BatchSpanProcessor] \<and>
   spans_ended sa (setup_app []) sps recorded = ([], setup_app [], recorded) \<and>
   on_end sa (init (spans_to_emit_as_metrics [])) sp recorded =
     (None, init (spans_to_emit_as_metrics []), recorded)"
  by (simp add: spans_to_emit_as_metrics_def setup_app_def setup_otel_def
      spans_ended_export_only on_end_def init_def)

subsection \<open>C8: the allow-list depends on the contents of the route table only\<close>

text \<open>
  C8: two route tables that hold the same pairs of a path and a set of methods yield the
  same allow-list, in whatever order the routes are listed and in whatever order each
  route's methods are met. Listing the same routes in another order, or building the
  allow-list again from the same table, are cases of it.
\<close>

theorem allow_list_order_independent:
  assumes "set (map (\<lambda>route. (path route, set (methods route))) routes) =
           set (map (\<lambda>route. (path route, set (methods route))) routes')"
  shows "spans_to_emit_as_metrics routes = spans_to_emit_as_metrics routes'"
proof -
  have eq: "spans_to_emit_as_metrics rs =
      (\<Union>(p, ms) \<in> set (map (\<lambda>route. (path route, set (methods route))) rs).
          (\<lambda>method. method @ '' '' @ p) ` ms)" for rs
    by (simp add: spans_to_emit_as_metrics_eq)
  show ?thesis
    unfolding eq [of routes] eq [of routes'] using assms by simp
qed

theorem allow_list_order_independent_witness:
  "set (map (\<lambda>route. (path route, set (methods route)))
      [\<lparr>path = ''/ping'', methods = [''GET'', ''HEAD'']\<rparr>, \<lparr>path = ''/hash'', methods = [''POST'']\<rparr>]) =
   set (map (\<lambda>route. (path route, set (methods route)))
      [\<lparr>path = ''/hash'', methods = [''POST'']\<rparr>, \<lparr>path = ''/ping'', methods = [''HEAD'', ''GET'']\<rparr>]) \<and>
   spans_to_emit_as_metrics
      [\<lparr>path = ''/ping'', methods = [''GET'', ''HEAD'']\<rparr>, \<lparr>path = ''/hash'', methods = [''POST'']\<rparr>] =
   spans_to_emit_as_metrics
      [\<lparr>path = ''/hash'', methods = [''POST'']\<rparr>, \<lparr>path = ''/ping'', methods = [''HEAD'', ''GET'']\<rparr>]"
proof -
  have h: "set (map (\<lambda>route. (path route, set (methods route)))
      [\<lparr>path = ''/ping'', methods = [''GET'', ''HEAD'']\<rparr>, \<lparr>path = ''/hash'', methods = [''POST'']\<rparr>]) =
   set (map (\<lambda>route. (path route, set (methods route)))
      [\<lparr>path = ''/hash'', methods = [''POST'']\<rparr>, \<lparr>path = ''/ping'', methods = [''HEAD'', ''GET'']\<rparr>])"
    by (simp add: insert_commute)
  from h allow_list_order_independent [OF h] show ?thesis by blast
qed

subsection \<open>C9: a timestamp equal to zero\<close>

text \<open>
  C9: for every span in the allow-list whose start time or end time is present and
  equal to \<open>0\<close>, \<^verbatim>\<open>on_end\<close> records no sample (and raises nothing): the check treats
  \<open>0\<close> as it treats an absent timestamp.
\<close>

theorem on_end_zero_timestamp:
  assumes "name sp \<in> span_names self"
    and "start_time sp = Some 0 \<or> end_time sp = Some 0"
  shows "on_end sa self sp recorded = (None, self, recorded)"
  using assms by (auto simp: on_end_def)

theorem on_end_zero_timestamp_witness:
  "name \<lparr>name = ''GET /ping'', start_time = Some 0, end_time = Some 7,
      attributes = (Map.empty :: string \<rightharpoonup> string)\<rparr> \<in> span_names (init {''GET /ping''}) \<and>
   on_end semconv (init {''GET /ping''})
     \<lparr>name = ''GET /ping'', start_time = Some 0, end_time = Some 7,
      attributes = (Map.empty :: string \<rightharpoonup> string)\<rparr> [] =
   (None, init {''GET /ping''}, []) \<and>
   on_end semconv (init {''GET /ping''})
     \<lparr>name = ''GET /ping'', start_time = Some 7, end_time = Some 0,
      attributes = (Map.empty :: string \<rightharpoonup> string)\<rparr> [] =
   (None, init {''GET /ping''}, [])"
  using on_end_zero_timestamp [where sp =
     "\<lparr>name = ''GET /ping'', start_time = Some 0, end_time = Some 7,
      attributes = (Map.empty :: string \<rightharpoonup> string)\<rparr>"
     and self = "init {''GET /ping''}" and sa = semconv and recorded = "[]"]
    on_end_zero_timestamp [where sp =
     "\<lparr>name = ''GET /ping'', start_time = Some 7, end_time = Some 0,
      attributes = (Map.empty :: string \<rightharpoonup> string)\<rparr>"
     and self = "init {''GET /ping''}" and sa = semconv and recorded = "[]"]
  by (simp add: init_def)

subsection \<open>C10: the processor's own state\<close>

text \<open>
  C10: for every span and every state, \<^verbatim>\<open>on_end\<close> returns the processor as it was,
  with the same \<^verbatim>\<open>span_names\<close> and the same \<^verbatim>\<open>request_latency_histogram\<close>; the
  recorded samples are as they were, or have grown by one \<^verbatim>\<open>record\<close> call on that
  histogram.
\<close>

theorem on_end_frame:
  "fst (snd (on_end sa self sp recorded)) = self \<and>
   span_names (fst (snd (on_end sa self sp recorded))) = span_names self \<and>
   request_latency_histogram (fst (snd (on_end sa self sp recorded))) =
     request_latency_histogram self \<and>
   (samples_of (on_end sa self sp recorded) = recorded \<or>
    (\<exists>m. samples_of (on_end sa self sp recorded) = recorded @ [m] \<and>
         instrument m = request_latency_histogram self))"
  by (simp add: on_end_def samples_of_def record_measurement_def split: sum.split)

end
